theory Spec2Isabelle
  imports Main
begin

section \<open>Romanian subtitles addon: a model of server.py\<close>

text \<open>
  The service answers \<^verbatim>\<open>GET /subtitles/{type}/{id}.json\<close> by asking three scraper
  classes in turn and concatenating what they return. The model follows server.py:
  exceptions are values of \<open>exn\<close> on the left of a sum, the calls that reach outside
  the process (the HTTP session, the logger, \<open>time.sleep\<close>) are recorded as a list of
  events, and the libraries the program calls (requests, BeautifulSoup, urljoin) are
  the fields of an environment record.
\<close>

subsection \<open>Exceptions and events\<close>

text \<open>
  All exceptions of the model derive from Python's \<open>Exception\<close>, as those of requests,
  BeautifulSoup, urllib and \<open>int()\<close> do. The string is what \<open>str(e)\<close> yields.
  \<open>LibraryError cls msg\<close> stands for whatever a library raises (a timeout, a connection
  error, a parser error).
\<close>

datatype exn =
    ValueError string
  | NotImplementedError
  | LibraryError string string

fun str_exn :: "exn \<Rightarrow> string" where
  "str_exn (ValueError m) = m"
| "str_exn NotImplementedError = []"
| "str_exn (LibraryError c m) = m"

datatype level = INFO | WARNING | ERROR

datatype event =
    Log level string
  | Get string
  | Sleep

subsection \<open>Strings and numbers as Python prints and reads them\<close>

definition digit_char :: "nat \<Rightarrow> char" where
  "digit_char d = ''0123456789'' ! d"

fun str_nat :: "nat \<Rightarrow> string" where
  "str_nat n = (if n < 10 then [digit_char n] else str_nat (n div 10) @ [digit_char (n mod 10)])"

declare str_nat.simps [simp del]

definition str_int :: "int \<Rightarrow> string" where
  "str_int i = (if i < 0 then CHR ''-'' # str_nat (nat (- i)) else str_nat (nat i))"

definition startswith :: "string \<Rightarrow> string \<Rightarrow> bool" where
  "startswith s p \<longleftrightarrow> take (length p) s = p"

text \<open>\<open>s.split(sep)\<close> for a one-character separator: the result is never empty.\<close>

fun str_split :: "string \<Rightarrow> char \<Rightarrow> string list" where
  "str_split [] sep = [[]]"
| "str_split (c # cs) sep =
     (if c = sep then [] # str_split cs sep
      else (case str_split cs sep of
              [] \<Rightarrow> [[c]]
            | p # ps \<Rightarrow> (c # p) # ps))"

text \<open>\<open>xs[i]\<close> raises IndexError out of range.\<close>

definition index :: "'a list \<Rightarrow> nat \<Rightarrow> exn + 'a" where
  "index xs i = (if i < length xs then Inr (xs ! i) else Inl (LibraryError ''IndexError'' ''list index out of range''))"

text \<open>
  \<open>int(s)\<close> on an ASCII string: surrounding whitespace is stripped, one sign is allowed,
  and the digits may be separated by single underscores. Anything else raises
  ValueError. (Identifiers are taken to be ASCII; for a literal without quotes or
  control characters the message is the one Python prints.)
\<close>

definition isspace :: "char \<Rightarrow> bool" where
  "isspace c \<longleftrightarrow> (let n = (of_char c :: nat) in (9 \<le> n \<and> n \<le> 13) \<or> (28 \<le> n \<and> n \<le> 32))"

definition isdigit :: "char \<Rightarrow> bool" where
  "isdigit c \<longleftrightarrow> (let n = (of_char c :: nat) in 48 \<le> n \<and> n \<le> 57)"

definition digit_val :: "char \<Rightarrow> nat" where
  "digit_val c = of_char c - 48"

definition strip :: "string \<Rightarrow> string" where
  "strip s = rev (dropWhile isspace (rev (dropWhile isspace s)))"

fun digits_from :: "nat \<Rightarrow> string \<Rightarrow> nat option" where
  "digits_from acc [] = Some acc"
| "digits_from acc [c] = (if isdigit c then Some (10 * acc + digit_val c) else None)"
| "digits_from acc (c # d # ds) =
     (if isdigit c then digits_from (10 * acc + digit_val c) (d # ds)
      else if c = CHR ''_'' \<and> isdigit d then digits_from (10 * acc + digit_val d) ds
      else None)"

definition digits :: "string \<Rightarrow> nat option" where
  "digits s = (case s of [] \<Rightarrow> None
               | c # cs \<Rightarrow> if isdigit c then digits_from (digit_val c) cs else None)"

definition invalid_literal :: "string \<Rightarrow> exn" where
  "invalid_literal s =
     ValueError (''invalid literal for int() with base 10: '' @ [CHR 0x27] @ s @ [CHR 0x27])"

definition py_int :: "string \<Rightarrow> exn + int" where
  "py_int s =
     (case strip s of
        [] \<Rightarrow> Inl (invalid_literal s)
      | c # cs \<Rightarrow>
          (case (if c = CHR ''-'' then map_option (\<lambda>n. - int n) (digits cs)
                 else if c = CHR ''+'' then map_option int (digits cs)
                 else map_option int (digits (c # cs))) of
             None \<Rightarrow> Inl (invalid_literal s)
           | Some i \<Rightarrow> Inr i))"

subsection \<open>The libraries: HTTP responses, parsed documents, urljoin\<close>

record response =
  status_code :: int
  content :: string

text \<open>
  A BeautifulSoup tag, as far as the scrapers look at it: its name, its attributes,
  \<open>get_text(strip=True)\<close>, and \<open>find('a')\<close> (the first anchor below it, if any).
\<close>

datatype tag = Tag (name: string) (attrs: "(string \<times> string) list") (get_text: string) (find_a: "tag option")

definition get :: "tag \<Rightarrow> string \<Rightarrow> string \<Rightarrow> string" where
  "get t key dflt = (case map_of (attrs t) key of None \<Rightarrow> dflt | Some v \<Rightarrow> v)"

text \<open>
  The arguments of a \<open>find_all\<close> call: the tag name, the attribute filtered on
  (\<open>class_\<close> or \<open>href\<close>), and the filter, a plain string or a compiled regular
  expression. A parsed document is what \<open>find_all\<close> returns on it for each selector.
\<close>

datatype pattern = Literal string | Regex string

datatype selector = Selector string string pattern

datatype soup = Soup (find_all: "selector \<Rightarrow> tag list")

text \<open>
  The environment of a request: \<open>session.get(url, timeout=10)\<close>, which returns a
  response or raises; the parser \<open>BeautifulSoup(content, 'html.parser')\<close>; and
  \<open>urljoin(base, link)\<close>, which raises ValueError on a link it cannot split.
\<close>

record env =
  http_get :: "string \<Rightarrow> exn + response"
  parse_html :: "string \<Rightarrow> exn + soup"
  urljoin :: "string \<Rightarrow> string \<Rightarrow> exn + string"

subsection \<open>The scraper classes\<close>

text \<open>
  The three \<open>search\<close> methods are the same code up to the class attribute \<open>BASE_URL\<close>
  and the literals collected here: the site name of the log lines and of the title
  prefix, the query string, the tag of the subtitle id, and the two \<open>find_all\<close> calls
  joined by \<open>or\<close>.
\<close>

record site =
  site_name :: string
  BASE_URL :: string
  search_path :: string
  id_tag :: string
  primary :: selector
  fallback :: selector

definition subtitrari_ro :: site where
  "subtitrari_ro = \<lparr>
     site_name = ''subtitrari.ro'',
     BASE_URL = ''https://www.subtitrari.ro'',
     search_path = ''/index.php?page=cauta&z7='',
     id_tag = ''subtitrari'',
     primary = Selector ''div'' ''class'' (Literal ''title''),
     fallback = Selector ''a'' ''href'' (Regex ''subtitrare'') \<rparr>"

definition subs_ro :: site where
  "subs_ro = \<lparr>
     site_name = ''subs.ro'',
     BASE_URL = ''https://www.subs.ro'',
     search_path = ''/search.php?q='',
     id_tag = ''subsro'',
     primary = Selector ''a'' ''href'' (Regex ''subtitrare|subtitle''),
     fallback = Selector ''div'' ''class'' (Regex ''subtitle|result'') \<rparr>"

definition titrari_ro :: site where
  "titrari_ro = \<lparr>
     site_name = ''titrari.ro'',
     BASE_URL = ''https://www.titrari.ro'',
     search_path = ''/index.php?page=cauta&z7='',
     id_tag = ''titrari'',
     primary = Selector ''a'' ''href'' (Regex ''subtitrare|id=''),
     fallback = Selector ''div'' ''class'' (Literal ''title'') \<rparr>"

record subtitle =
  sub_id :: string
  url :: string
  lang :: string
  title :: string

text \<open>
  The body of the inner \<open>try\<close>, for one \<open>(idx, result)\<close> of the loop: \<open>Inl e\<close> when it
  raises, \<open>Inr None\<close> when it reaches a \<open>continue\<close>, \<open>Inr (Some s)\<close> when it appends \<open>s\<close>.
\<close>

definition parse_entry :: "env \<Rightarrow> site \<Rightarrow> string \<Rightarrow> nat \<times> tag \<Rightarrow> exn + subtitle option" where
  "parse_entry e st imdb_id p =
     (let idx = fst p; result = snd p;
          found = (if name result = ''a''
                   then Some (get result ''href'' [], get_text result)
                   else (case find_a result of
                           None \<Rightarrow> None
                         | Some link_tag \<Rightarrow> Some (get link_tag ''href'' [], get_text link_tag)))
      in case found of
           None \<Rightarrow> Inr None
         | Some (link, ttl) \<Rightarrow>
             if link = [] \<or> ttl = [] then Inr None
             else (case (if \<not> startswith link ''http'' then urljoin e (BASE_URL st) link
                         else Inr link) of
                     Inl x \<Rightarrow> Inl x
                   | Inr link' \<Rightarrow>
                       Inr (Some \<lparr> sub_id = id_tag st @ ''_'' @ str_nat idx @ ''_'' @ imdb_id,
                                   url = link',
                                   lang = ''rum'',
                                   title = ''['' @ site_name st @ ''] '' @ ttl \<rparr>)))"

text \<open>The \<open>for\<close> loop over \<open>enumerate(results[:10])\<close>, on the list \<open>subtitles\<close> and the events.\<close>

fun entries_loop ::
  "env \<Rightarrow> site \<Rightarrow> string \<Rightarrow> (nat \<times> tag) list \<Rightarrow> subtitle list \<times> event list \<Rightarrow> subtitle list \<times> event list" where
  "entries_loop e st imdb_id [] acc = acc"
| "entries_loop e st imdb_id (p # ps) acc =
     (case parse_entry e st imdb_id p of
        Inr None \<Rightarrow> entries_loop e st imdb_id ps acc
      | Inr (Some s) \<Rightarrow> entries_loop e st imdb_id ps (fst acc @ [s], snd acc)
      | Inl x \<Rightarrow>
          entries_loop e st imdb_id ps
            (fst acc, snd acc @ [Log ERROR (''Error parsing subtitle entry: '' @ str_exn x)]))"

text \<open>\<open>A or B\<close> on two \<open>find_all\<close> results: \<open>B\<close> is taken only when \<open>A\<close> is empty.\<close>

definition find_results :: "site \<Rightarrow> soup \<Rightarrow> tag list" where
  "find_results st sp =
     (if find_all sp (primary st) \<noteq> [] then find_all sp (primary st)
      else find_all sp (fallback st))"

text \<open>
  The outer \<open>try\<close> block: the exception that left it, if any, the list \<open>subtitles\<close> at
  that moment, and the events so far.
\<close>

definition search_try :: "env \<Rightarrow> site \<Rightarrow> string \<Rightarrow> exn option \<times> subtitle list \<times> event list" where
  "search_try e st imdb_id =
     (let search_url = BASE_URL st @ search_path st @ imdb_id;
          evs = [Log INFO (''Searching '' @ site_name st @ '' with URL: '' @ search_url),
                 Get search_url]
      in case http_get e search_url of
           Inl x \<Rightarrow> (Some x, [], evs)
         | Inr resp \<Rightarrow>
             if status_code resp \<noteq> 200
             then (None, [],
                   evs @ [Log WARNING (site_name st @ '' returned status '' @ str_int (status_code resp))])
             else (case parse_html e (content resp) of
                     Inl x \<Rightarrow> (Some x, [], evs)
                   | Inr sp \<Rightarrow>
                       (let r = entries_loop e st imdb_id
                                  (enumerate 0 (take 10 (find_results st sp))) ([], evs)
                        in (None, fst r, snd r))))"

text \<open>
  \<open>search\<close>: the \<open>try\<close> block, the \<open>except Exception\<close> that logs, and \<open>return subtitles\<close>.
  The parameters \<open>type\<close>, \<open>season\<close> and \<open>episode\<close> are accepted and not read.
\<close>

definition scraper_search ::
  "env \<Rightarrow> site \<Rightarrow> string \<Rightarrow> string \<Rightarrow> int option \<Rightarrow> int option \<Rightarrow> (exn + subtitle list) \<times> event list" where
  "scraper_search e st imdb_id ty season episode =
     (case search_try e st imdb_id of
        (None, subtitles, evs) \<Rightarrow> (Inr subtitles, evs)
      | (Some x, subtitles, evs) \<Rightarrow>
          (Inr subtitles,
           evs @ [Log ERROR (''Error scraping '' @ site_name st @ '': '' @ str_exn x)]))"

text \<open>An object of the list \<open>scrapers\<close>: its class name and its \<open>search\<close> method.\<close>

record scraper =
  class_name :: string
  search :: "string \<Rightarrow> string \<Rightarrow> int option \<Rightarrow> int option \<Rightarrow> (exn + subtitle list) \<times> event list"


definition SubtitrariRoScraper :: "env \<Rightarrow> scraper" where
  "SubtitrariRoScraper e = \<lparr> class_name = ''SubtitrariRoScraper'', search = scraper_search e subtitrari_ro \<rparr>"

definition SubsRoScraper :: "env \<Rightarrow> scraper" where
  "SubsRoScraper e = \<lparr> class_name = ''SubsRoScraper'', search = scraper_search e subs_ro \<rparr>"

definition TitrariRoScraper :: "env \<Rightarrow> scraper" where
  "TitrariRoScraper e = \<lparr> class_name = ''TitrariRoScraper'', search = scraper_search e titrari_ro \<rparr>"

definition scrapers :: "env \<Rightarrow> scraper list" where
  "scrapers e = [SubtitrariRoScraper e, SubsRoScraper e, TitrariRoScraper e]"

subsection \<open>The endpoint\<close>

text \<open>
  What leaves \<open>get_subtitles\<close> instead of a response: the \<open>HTTPException\<close> it raises
  itself, or an exception nothing caught.
\<close>

datatype failure = HTTPException nat string | Uncaught exn

text \<open>The loop \<open>for scraper in scrapers\<close>, on \<open>all_subtitles\<close> and the events.\<close>

fun run_scrapers ::
  "scraper list \<Rightarrow> string \<Rightarrow> string \<Rightarrow> int option \<Rightarrow> int option \<Rightarrow>
   subtitle list \<times> event list \<Rightarrow> subtitle list \<times> event list" where
  "run_scrapers [] imdb_id ty season episode acc = acc"
| "run_scrapers (sc # scs) imdb_id ty season episode acc =
     (case search sc imdb_id ty season episode of
        (Inr subs, evs) \<Rightarrow>
          run_scrapers scs imdb_id ty season episode (fst acc @ subs, snd acc @ evs @ [Sleep])
      | (Inl x, evs) \<Rightarrow>
          run_scrapers scs imdb_id ty season episode
            (fst acc,
             snd acc @ evs @ [Log ERROR (''Error with scraper '' @ class_name sc @ '': '' @ str_exn x)]))"

definition get_subtitles :: "scraper list \<Rightarrow> string \<Rightarrow> string \<Rightarrow> (failure + subtitle list) \<times> event list" where
  "get_subtitles scs ty ident =
     (let evs = [Log INFO (''Subtitle request - Type: '' @ ty @ '', ID: '' @ ident)];
          parts = str_split ident CHR '':''
      in case index parts 0 of
           Inl x \<Rightarrow> (Inl (Uncaught x), evs)
         | Inr imdb_id \<Rightarrow>
             (case (if length parts > 1
                    then (case index parts 1 of Inl x \<Rightarrow> Inl x
                          | Inr p \<Rightarrow> map_sum id Some (py_int p))
                    else Inr None) of
                Inl x \<Rightarrow> (Inl (Uncaught x), evs)
              | Inr season \<Rightarrow>
                  (case (if length parts > 2
                         then (case index parts 2 of Inl x \<Rightarrow> Inl x
                               | Inr p \<Rightarrow> map_sum id Some (py_int p))
                         else Inr None) of
                     Inl x \<Rightarrow> (Inl (Uncaught x), evs)
                   | Inr episode \<Rightarrow>
                       if \<not> startswith imdb_id ''tt''
                       then (Inl (HTTPException 400 ''Invalid IMDB ID format''), evs)
                       else (let r = run_scrapers scs imdb_id ty season episode ([], evs)
                             in (Inr (fst r),
                                 snd r @ [Log INFO (''Found '' @ str_nat (length (fst r))
                                                     @ '' subtitles for '' @ imdb_id)])))))"

text \<open>
  The status line the framework sends: 200 with the JSON body, the status of an
  \<open>HTTPException\<close>, and 500 for an exception that nothing caught.
\<close>

fun http_status :: "failure + subtitle list \<Rightarrow> nat" where
  "http_status (Inr subs) = 200"
| "http_status (Inl (HTTPException code detail)) = code"
| "http_status (Inl (Uncaught x)) = 500"

subsection \<open>The notions of the specification\<close>

text \<open>
  The link and title of a match (the spec's RawResult): those of the match itself when
  it is an anchor, those of its first nested anchor otherwise, and none for a container
  without an anchor.
\<close>

definition link_and_title :: "tag \<Rightarrow> (string \<times> string) option" where
  "link_and_title r =
     (if name r = ''a'' then Some (get r ''href'' [], get_text r)
      else map_option (\<lambda>a. (get a ''href'' [], get_text a)) (find_a r))"

text \<open>
  The URL a link is mapped to, and whether the mapping goes through: a link that starts
  with \<open>http\<close> is kept, any other is given to \<open>urljoin\<close> with the base URL.
\<close>

definition maps_without_exception :: "env \<Rightarrow> site \<Rightarrow> string \<Rightarrow> bool" where
  "maps_without_exception e st link \<longleftrightarrow>
     startswith link ''http'' \<or> \<not> isl (urljoin e (BASE_URL st) link)"

definition resolved_link :: "env \<Rightarrow> site \<Rightarrow> string \<Rightarrow> string" where
  "resolved_link e st link =
     (if startswith link ''http'' then link
      else (case urljoin e (BASE_URL st) link of Inr u \<Rightarrow> u | Inl x \<Rightarrow> link))"

text \<open>
  A valid entry has a link and a title, both non-empty, and maps without an exception;
  every other entry is malformed.
\<close>

definition valid_entry :: "env \<Rightarrow> site \<Rightarrow> tag \<Rightarrow> bool" where
  "valid_entry e st r \<longleftrightarrow>
     (case link_and_title r of
        None \<Rightarrow> False
      | Some (link, ttl) \<Rightarrow> link \<noteq> [] \<and> ttl \<noteq> [] \<and> maps_without_exception e st link)"

definition make_id :: "site \<Rightarrow> string \<Rightarrow> nat \<Rightarrow> string" where
  "make_id st imdb_id idx = id_tag st @ ''_'' @ str_nat idx @ ''_'' @ imdb_id"

definition record_of :: "env \<Rightarrow> site \<Rightarrow> string \<Rightarrow> nat \<times> tag \<Rightarrow> subtitle" where
  "record_of e st imdb_id p =
     (let lt = (case link_and_title (snd p) of None \<Rightarrow> ([], []) | Some x \<Rightarrow> x)
      in \<lparr> sub_id = make_id st imdb_id (fst p),
           url = resolved_link e st (fst lt),
           lang = ''rum'',
           title = ''['' @ site_name st @ ''] '' @ snd lt \<rparr>)"

text \<open>
  An absolute URL starts with a scheme and a colon (RFC 3986): a letter, then letters,
  digits, \<open>+\<close>, \<open>-\<close> or \<open>.\<close>.
\<close>

definition isalpha :: "char \<Rightarrow> bool" where
  "isalpha c \<longleftrightarrow> (let n = (of_char c :: nat) in (65 \<le> n \<and> n \<le> 90) \<or> (97 \<le> n \<and> n \<le> 122))"

definition scheme_char :: "char \<Rightarrow> bool" where
  "scheme_char c \<longleftrightarrow> isalpha c \<or> isdigit c \<or> c = CHR ''+'' \<or> c = CHR ''-'' \<or> c = CHR ''.''"

definition is_absolute_url :: "string \<Rightarrow> bool" where
  "is_absolute_url u \<longleftrightarrow>
     (let s = takeWhile (\<lambda>c. c \<noteq> CHR '':'') u
      in s \<noteq> [] \<and> length s < length u \<and> isalpha (hd s) \<and> list_all scheme_char s)"

text \<open>
  What one scraper adds to the result of the aggregation loop, and the events of its
  turn: its own, then the pause after a call that returned, or the error line after a
  call that raised.
\<close>

definition contribution :: "string \<Rightarrow> string \<Rightarrow> int option \<Rightarrow> int option \<Rightarrow> scraper \<Rightarrow> subtitle list" where
  "contribution imdb_id ty season episode sc =
     (case fst (search sc imdb_id ty season episode) of Inr subs \<Rightarrow> subs | Inl x \<Rightarrow> [])"

definition invocation :: "string \<Rightarrow> string \<Rightarrow> int option \<Rightarrow> int option \<Rightarrow> scraper \<Rightarrow> event list" where
  "invocation imdb_id ty season episode sc =
     snd (search sc imdb_id ty season episode) @
     (case fst (search sc imdb_id ty season episode) of
        Inr subs \<Rightarrow> [Sleep]
      | Inl x \<Rightarrow> [Log ERROR (''Error with scraper '' @ class_name sc @ '': '' @ str_exn x)])"


text \<open>
  A source is unavailable when the fetch raises (a timeout, a refused connection), when
  the status is not 200, or when the parser raises on the body.
\<close>

definition source_unavailable :: "env \<Rightarrow> site \<Rightarrow> string \<Rightarrow> bool" where
  "source_unavailable e st imdb_id \<longleftrightarrow>
     (case http_get e (BASE_URL st @ search_path st @ imdb_id) of
        Inl x \<Rightarrow> True
      | Inr resp \<Rightarrow> status_code resp \<noteq> 200 \<or> isl (parse_html e (content resp)))"

text \<open>The last event is the warning or the error line of the site.\<close>

definition failure_logged :: "site \<Rightarrow> event list \<Rightarrow> bool" where
  "failure_logged st evs \<longleftrightarrow>
     evs \<noteq> [] \<and>
     (case last evs of
        Log l m \<Rightarrow> (l = ERROR \<and> startswith m (''Error scraping '' @ site_name st @ '': ''))
                   \<or> (l = WARNING \<and> startswith m (site_name st @ '' returned status ''))
      | Get u \<Rightarrow> False
      | Sleep \<Rightarrow> False)"

text \<open>
  The leading component of a request identifier, and what \<open>int()\<close> makes of the
  component at position \<open>k\<close> (season at 1, episode at 2) when the identifier has one.
\<close>

definition imdb_of :: "string \<Rightarrow> string" where
  "imdb_of ident = hd (str_split ident CHR '':'')"

definition component :: "string \<Rightarrow> nat \<Rightarrow> exn + int option" where
  "component ident k =
     (let parts = str_split ident CHR '':''
      in if k < length parts then map_sum id Some (py_int (parts ! k)) else Inr None)"

text \<open>The two log lines of the endpoint.\<close>

definition request_line :: "string \<Rightarrow> string \<Rightarrow> event" where
  "request_line ty ident = Log INFO (''Subtitle request - Type: '' @ ty @ '', ID: '' @ ident)"

definition found_line :: "nat \<Rightarrow> string \<Rightarrow> event" where
  "found_line n imdb_id = Log INFO (''Found '' @ str_nat n @ '' subtitles for '' @ imdb_id)"

text \<open>
  The three sites, and the shape of a record of a response: the language code \<open>rum\<close>,
  a title that starts with the bracketed name of one of the sites, and an id made of
  the tag of that site, an ordinal below 10 and the IMDB id of the request.
\<close>

definition source_sites :: "site list" where
  "source_sites = [subtitrari_ro, subs_ro, titrari_ro]"

definition well_formed_record :: "string \<Rightarrow> subtitle \<Rightarrow> bool" where
  "well_formed_record imdb_id s \<longleftrightarrow>
     lang s = ''rum'' \<and>
     list_ex (\<lambda>st. startswith (title s) (''['' @ site_name st @ ''] '') \<and>
                   list_ex (\<lambda>idx. sub_id s = make_id st imdb_id idx) [0..<10])
       source_sites"



text \<open>
  The matches a search works on: those of the winning \<open>find_all\<close> call on the parsed
  page, and none when the fetch raises, the status is not 200 or the parser raises.
\<close>

definition matches :: "env \<Rightarrow> site \<Rightarrow> string \<Rightarrow> tag list" where
  "matches e st imdb_id =
     (case http_get e (BASE_URL st @ search_path st @ imdb_id) of
        Inl x \<Rightarrow> []
      | Inr resp \<Rightarrow>
          if status_code resp \<noteq> 200 then []
          else (case parse_html e (content resp) of
                  Inl x \<Rightarrow> []
                | Inr sp \<Rightarrow> find_results st sp))"

text \<open>
  What one site adds to a response: a record for each valid entry among its first 10
  matches.
\<close>

definition site_output :: "env \<Rightarrow> site \<Rightarrow> string \<Rightarrow> subtitle list" where
  "site_output e st imdb_id =
     map (record_of e st imdb_id)
       (filter (\<lambda>p. valid_entry e st (snd p)) (enumerate 0 (take 10 (matches e st imdb_id))))"

subsection \<open>Sample documents and environments\<close>

text \<open>
  \<open>urljoin\<close> on a base without a path, for the links of the samples: a path is appended
  to the base, and a link whose authority opens a bracket that is never closed raises
  ValueError, as urllib does.
\<close>

definition sample_urljoin :: "string \<Rightarrow> string \<Rightarrow> exn + string" where
  "sample_urljoin base link =
     (if startswith link ''//['' then Inl (ValueError ''Invalid IPv6 URL'')
      else if startswith link ''/'' then Inr (base @ link)
      else Inr (base @ ''/'' @ link))"

definition anchor :: "string \<Rightarrow> string \<Rightarrow> tag" where
  "anchor href txt = Tag ''a'' [(''href'', href)] txt None"

definition title_div :: "tag option \<Rightarrow> tag" where
  "title_div a = Tag ''div'' [(''class'', ''title'')] (case a of None \<Rightarrow> ''plain'' | Some t \<Rightarrow> get_text t) a"

text \<open>
  A page on which every selector of the three sites matches: title containers (one
  without an anchor, one whose link raises in \<open>urljoin\<close>) and anchors (one without
  \<open>href\<close>, one without text).
\<close>

definition sample_divs :: "tag list" where
  "sample_divs =
     [title_div (Some (anchor ''/subtitrare/1'' ''Film A'')),
      title_div None,
      title_div (Some (anchor ''//[bad'' ''Film B'')),
      title_div (Some (anchor ''https://cdn.example.org/c.zip'' ''Film C''))]"

definition sample_anchors :: "tag list" where
  "sample_anchors =
     [anchor ''subtitrare-2.html'' ''Film D'',
      Tag ''a'' [] ''Film E'' None,
      anchor ''/subtitrare/3'' [],
      anchor ''/subtitrare?id=4'' ''Film F'']"

definition sample_soup :: soup where
  "sample_soup = Soup (\<lambda>sel. case sel of Selector n a p \<Rightarrow> if n = ''div'' then sample_divs else sample_anchors)"

definition other_soup :: soup where
  "other_soup = Soup (\<lambda>sel. case sel of Selector n a p \<Rightarrow> if n = ''div'' then sample_divs else [])"

definition sample_env :: env where
  "sample_env = \<lparr> http_get = (\<lambda>u. Inr \<lparr> status_code = 200, content = ''<html>'' \<rparr>),
                   parse_html = (\<lambda>c. Inr sample_soup),
                   urljoin = sample_urljoin \<rparr>"

definition other_env :: env where
  "other_env = \<lparr> http_get = (\<lambda>u. Inr \<lparr> status_code = 200, content = ''<html>'' \<rparr>),
                  parse_html = (\<lambda>c. Inr other_soup),
                  urljoin = sample_urljoin \<rparr>"

text \<open>A site that answers every request with status 500.\<close>

definition env_500 :: env where
  "env_500 = \<lparr> http_get = (\<lambda>u. Inr \<lparr> status_code = 500, content = [] \<rparr>),
                parse_html = (\<lambda>c. Inr sample_soup),
                urljoin = sample_urljoin \<rparr>"

text \<open>Ten title containers without an anchor, then a well-formed one.\<close>

definition eleven_soup :: soup where
  "eleven_soup = Soup (\<lambda>sel. replicate 10 (title_div None) @ [title_div (Some (anchor ''/subtitrare/11'' ''Film K''))])"

definition eleven_env :: env where
  "eleven_env = \<lparr> http_get = (\<lambda>u. Inr \<lparr> status_code = 200, content = ''<html>'' \<rparr>),
                   parse_html = (\<lambda>c. Inr eleven_soup),
                   urljoin = sample_urljoin \<rparr>"

text \<open>A title container whose link is the relative path \<open>httpx/sub.zip\<close>.\<close>

definition httpx_soup :: soup where
  "httpx_soup = Soup (\<lambda>sel. [title_div (Some (anchor ''httpx/sub.zip'' ''Film H''))])"

definition httpx_env :: env where
  "httpx_env = \<lparr> http_get = (\<lambda>u. Inr \<lparr> status_code = 200, content = ''<html>'' \<rparr>),
                  parse_html = (\<lambda>c. Inr httpx_soup),
                  urljoin = sample_urljoin \<rparr>"

section \<open>Properties\<close>

subsection \<open>The loop over the matches\<close>

lemma parse_entry_valid:
  assumes "valid_entry e st (snd p)"
  shows "parse_entry e st imdb_id p = Inr (Some (record_of e st imdb_id p))"
proof (cases "link_and_title (snd p)")
  case None
  with assms show ?thesis by (simp add: valid_entry_def)
next
  case (Some lt)
  obtain link ttl where lt: "lt = (link, ttl)" by (cases lt)
  from assms Some lt have ok: "link \<noteq> []" "ttl \<noteq> []" "maps_without_exception e st link"
    by (simp_all add: valid_entry_def)
  from Some lt have found:
    "(if name (snd p) = ''a'' then Some (get (snd p) ''href'' [], get_text (snd p))
      else (case find_a (snd p) of None \<Rightarrow> None
            | Some link_tag \<Rightarrow> Some (get link_tag ''href'' [], get_text link_tag))) = Some (link, ttl)"
    by (auto simp: link_and_title_def split: if_splits option.splits)
  show ?thesis
  proof (cases "startswith link ''http''")
    case True
    with ok Some lt found show ?thesis
      unfolding parse_entry_def record_of_def resolved_link_def make_id_def Let_def
      by simp
  next
    case False
    with ok(3) obtain u where u: "urljoin e (BASE_URL st) link = Inr u"
      by (cases "urljoin e (BASE_URL st) link") (auto simp: maps_without_exception_def)
    with False ok Some lt found show ?thesis
      unfolding parse_entry_def record_of_def resolved_link_def make_id_def Let_def
      by simp
  qed
qed

lemma parse_entry_malformed:
  assumes "\<not> valid_entry e st (snd p)"
  shows "parse_entry e st imdb_id p = Inr None \<or> (\<exists>x. parse_entry e st imdb_id p = Inl x)"
proof (cases "link_and_title (snd p)")
  case None
  then have "(if name (snd p) = ''a'' then Some (get (snd p) ''href'' [], get_text (snd p))
      else (case find_a (snd p) of None \<Rightarrow> None
            | Some link_tag \<Rightarrow> Some (get link_tag ''href'' [], get_text link_tag))) = None"
    by (auto simp: link_and_title_def split: if_splits option.splits)
  then show ?thesis unfolding parse_entry_def Let_def by simp
next
  case (Some lt)
  obtain link ttl where lt: "lt = (link, ttl)" by (cases lt)
  from Some lt have found:
    "(if name (snd p) = ''a'' then Some (get (snd p) ''href'' [], get_text (snd p))
      else (case find_a (snd p) of None \<Rightarrow> None
            | Some link_tag \<Rightarrow> Some (get link_tag ''href'' [], get_text link_tag))) = Some (link, ttl)"
    by (auto simp: link_and_title_def split: if_splits option.splits)
  from assms Some lt have bad: "link = [] \<or> ttl = [] \<or> \<not> maps_without_exception e st link"
    by (simp add: valid_entry_def)
  show ?thesis
  proof (cases "link = [] \<or> ttl = []")
    case True
    with found show ?thesis unfolding parse_entry_def Let_def by simp
  next
    case False
    with bad have nm: "\<not> startswith link ''http''" "isl (urljoin e (BASE_URL st) link)"
      by (simp_all add: maps_without_exception_def)
    then obtain x where "urljoin e (BASE_URL st) link = Inl x"
      by (cases "urljoin e (BASE_URL st) link") simp_all
    with False nm found show ?thesis unfolding parse_entry_def Let_def by simp
  qed
qed

lemma entries_loop_fst:
  "fst (entries_loop e st imdb_id ps acc) =
     fst acc @ map (record_of e st imdb_id) (filter (\<lambda>p. valid_entry e st (snd p)) ps)"
proof (induction ps arbitrary: acc)
  case Nil
  show ?case by simp
next
  case (Cons p ps)
  show ?case
  proof (cases "valid_entry e st (snd p)")
    case True
    then show ?thesis
      using Cons[of "(fst acc @ [record_of e st imdb_id p], snd acc)"]
      by (simp add: parse_entry_valid)
  next
    case False
    from parse_entry_malformed[OF False, of imdb_id] show ?thesis
    proof
      assume "parse_entry e st imdb_id p = Inr None"
      with False Cons[of acc] show ?thesis by simp
    next
      assume "\<exists>x. parse_entry e st imdb_id p = Inl x"
      then obtain x where "parse_entry e st imdb_id p = Inl x" ..
      with False Cons[of "(fst acc, snd acc @ [Log ERROR (''Error parsing subtitle entry: '' @ str_exn x)])"]
      show ?thesis by simp
    qed
  qed
qed

subsection \<open>One search\<close>

text \<open>The result of \<open>search\<close> in each of the four ways the \<open>try\<close> block can go.\<close>

lemma search_fetch_raises:
  assumes "http_get e (BASE_URL st @ search_path st @ imdb_id) = Inl x"
  shows "scraper_search e st imdb_id ty season episode =
           (Inr [], [Log INFO (''Searching '' @ site_name st @ '' with URL: '' @ BASE_URL st @ search_path st @ imdb_id),
                     Get (BASE_URL st @ search_path st @ imdb_id),
                     Log ERROR (''Error scraping '' @ site_name st @ '': '' @ str_exn x)])"
  using assms by (simp add: scraper_search_def search_try_def Let_def)

lemma search_bad_status:
  assumes "http_get e (BASE_URL st @ search_path st @ imdb_id) = Inr resp" "status_code resp \<noteq> 200"
  shows "scraper_search e st imdb_id ty season episode =
           (Inr [], [Log INFO (''Searching '' @ site_name st @ '' with URL: '' @ BASE_URL st @ search_path st @ imdb_id),
                     Get (BASE_URL st @ search_path st @ imdb_id),
                     Log WARNING (site_name st @ '' returned status '' @ str_int (status_code resp))])"
  using assms by (simp add: scraper_search_def search_try_def Let_def)

lemma search_parse_raises:
  assumes "http_get e (BASE_URL st @ search_path st @ imdb_id) = Inr resp" "status_code resp = 200"
    "parse_html e (content resp) = Inl x"
  shows "scraper_search e st imdb_id ty season episode =
           (Inr [], [Log INFO (''Searching '' @ site_name st @ '' with URL: '' @ BASE_URL st @ search_path st @ imdb_id),
                     Get (BASE_URL st @ search_path st @ imdb_id),
                     Log ERROR (''Error scraping '' @ site_name st @ '': '' @ str_exn x)])"
  using assms by (simp add: scraper_search_def search_try_def Let_def)

lemma search_parsed:
  assumes "http_get e (BASE_URL st @ search_path st @ imdb_id) = Inr resp" "status_code resp = 200"
    "parse_html e (content resp) = Inr sp"
  shows "scraper_search e st imdb_id ty season episode =
           (Inr (fst (entries_loop e st imdb_id (enumerate 0 (take 10 (find_results st sp)))
                   ([], [Log INFO (''Searching '' @ site_name st @ '' with URL: '' @ BASE_URL st @ search_path st @ imdb_id),
                     Get (BASE_URL st @ search_path st @ imdb_id)]))),
            snd (entries_loop e st imdb_id (enumerate 0 (take 10 (find_results st sp)))
                   ([], [Log INFO (''Searching '' @ site_name st @ '' with URL: '' @ BASE_URL st @ search_path st @ imdb_id),
                     Get (BASE_URL st @ search_path st @ imdb_id)])))"
  using assms by (simp add: scraper_search_def search_try_def Let_def case_prod_unfold)

text \<open>What \<open>search\<close> returns, in one formula.\<close>

lemma search_result:
  "fst (scraper_search e st imdb_id ty season episode) =
     Inr (map (record_of e st imdb_id)
            (filter (\<lambda>p. valid_entry e st (snd p)) (enumerate 0 (take 10 (matches e st imdb_id)))))"
proof (cases "http_get e (BASE_URL st @ search_path st @ imdb_id)")
  case (Inl x)
  then show ?thesis by (simp add: search_fetch_raises matches_def)
next
  case (Inr resp)
  show ?thesis
  proof (cases "status_code resp = 200")
    case False
    with Inr show ?thesis by (simp add: search_bad_status matches_def)
  next
    case True
    show ?thesis
    proof (cases "parse_html e (content resp)")
      case (Inl x)
      with Inr True show ?thesis by (simp add: search_parse_raises matches_def)
    next
      case sp: (Inr sp)
      with Inr True show ?thesis
        by (simp add: search_parsed[OF Inr True sp] matches_def entries_loop_fst)
    qed
  qed
qed

text \<open>
  Claim C4: for every adapter and every document, however many matches the document
  holds, \<open>search\<close> returns a list, and the list has at most 10 records.
\<close>

theorem search_at_most_ten:
  "\<exists>subs. fst (scraper_search e st imdb_id ty season episode) = Inr subs \<and> length subs \<le> 10"
proof -
  have "length (filter (\<lambda>p. valid_entry e st (snd p)) (enumerate 0 (take 10 (matches e st imdb_id))))
          \<le> length (enumerate 0 (take 10 (matches e st imdb_id)))"
    by (rule length_filter_le)
  also have "\<dots> \<le> 10" by simp
  finally show ?thesis by (simp add: search_result)
qed

text \<open>
  Claim C9: with the environment, the adapter, the IMDB id and the type fixed, \<open>search\<close>
  returns the same list and makes the same calls for all values of \<open>season\<close> and
  \<open>episode\<close>, \<open>None\<close> included.
\<close>

theorem search_ignores_season_episode:
  "scraper_search e st imdb_id ty season episode = scraper_search e st imdb_id ty season' episode'"
  by (simp add: scraper_search_def)

subsection \<open>Prefixes\<close>

lemma startswith_Nil: "startswith s []"
  by (simp add: startswith_def)

lemma startswith_Cons: "startswith (x # s) (y # p) \<longleftrightarrow> x = y \<and> startswith s p"
  by (simp add: startswith_def)

lemma startswith_same_append: "startswith (a @ s) (a @ p) \<longleftrightarrow> startswith s p"
  by (simp add: startswith_def)

lemmas startswith_simps = startswith_Nil startswith_Cons startswith_same_append

subsection \<open>Failures of a source\<close>

text \<open>
  Claim C2: for every adapter and every input, \<open>search\<close> returns a list and never an
  exception; when the fetch raises, answers with a status other than 200 (500, say), or
  the body cannot be parsed, the list is empty and the last thing the adapter did was
  to log the failure.
\<close>

theorem search_never_raises:
  "(\<exists>subs. fst (scraper_search e st imdb_id ty season episode) = Inr subs) \<and>
   (source_unavailable e st imdb_id \<longrightarrow>
      fst (scraper_search e st imdb_id ty season episode) = Inr [] \<and>
      failure_logged st (snd (scraper_search e st imdb_id ty season episode)))"
proof (cases "http_get e (BASE_URL st @ search_path st @ imdb_id)")
  case (Inl x)
  show ?thesis
    by (simp add: search_fetch_raises[OF Inl] failure_logged_def startswith_simps)
next
  case (Inr resp)
  show ?thesis
  proof (cases "status_code resp = 200")
    case False
    show ?thesis
      by (simp add: search_bad_status[OF Inr False] failure_logged_def startswith_simps)
  next
    case True
    show ?thesis
    proof (cases "parse_html e (content resp)")
      case (Inl x)
      show ?thesis
        by (simp add: search_parse_raises[OF Inr True Inl] failure_logged_def startswith_simps)
    next
      case sp: (Inr sp)
      show ?thesis
        by (simp add: search_parsed[OF Inr True sp] source_unavailable_def Inr True sp)
    qed
  qed
qed

theorem search_never_raises_witness:
  "source_unavailable env_500 subs_ro ''tt0111161'' \<and>
   scraper_search env_500 subs_ro ''tt0111161'' ''movie'' None None =
     (Inr [], [Log INFO ''Searching subs.ro with URL: https://www.subs.ro/search.php?q=tt0111161'',
               Get ''https://www.subs.ro/search.php?q=tt0111161'',
               Log WARNING ''subs.ro returned status 500''])"
proof -
  have h: "source_unavailable env_500 subs_ro ''tt0111161''" by code_simp
  have "fst (scraper_search env_500 subs_ro ''tt0111161'' ''movie'' None None) = Inr []"
    using search_never_raises[of env_500 subs_ro "''tt0111161''" "''movie''" None None] h by blast
  moreover have "snd (scraper_search env_500 subs_ro ''tt0111161'' ''movie'' None None) =
     [Log INFO ''Searching subs.ro with URL: https://www.subs.ro/search.php?q=tt0111161'',
               Get ''https://www.subs.ro/search.php?q=tt0111161'',
               Log WARNING ''subs.ro returned status 500'']"
    by code_simp
  ultimately show ?thesis using h by (simp add: prod_eq_iff)
qed

subsection \<open>The fallback selector\<close>







subsection \<open>Malformed entries\<close>

text \<open>
  Claim C5, as amended: among the first 10 matches of the page, exactly the malformed
  entries are dropped; \<open>search\<close> returns one record for each valid entry among them, in
  their order on the page.
\<close>

theorem malformed_entries_dropped:
  "fst (scraper_search e st imdb_id ty season episode) =
     Inr (map (record_of e st imdb_id)
            (filter (\<lambda>p. valid_entry e st (snd p))
               (enumerate 0 (take 10 (matches e st imdb_id)))))"
  by (rule search_result)

theorem malformed_entries_dropped_witness:
  "matches sample_env subtitrari_ro ''tt0111161'' = sample_divs \<and>
   map (valid_entry sample_env subtitrari_ro) sample_divs = [True, False, False, True] \<and>
   fst (scraper_search sample_env subtitrari_ro ''tt0111161'' ''movie'' None None) =
     Inr [\<lparr>sub_id = ''subtitrari_0_tt0111161'', url = ''https://www.subtitrari.ro/subtitrare/1'',
            lang = ''rum'', title = ''[subtitrari.ro] Film A''\<rparr>,
          \<lparr>sub_id = ''subtitrari_3_tt0111161'', url = ''https://cdn.example.org/c.zip'',
            lang = ''rum'', title = ''[subtitrari.ro] Film C''\<rparr>]"
proof -
  have m: "matches sample_env subtitrari_ro ''tt0111161'' = sample_divs"
    by code_simp
  have v: "map (valid_entry sample_env subtitrari_ro) sample_divs = [True, False, False, True]"
    by code_simp
  have r: "map (record_of sample_env subtitrari_ro ''tt0111161'')
            (filter (\<lambda>p. valid_entry sample_env subtitrari_ro (snd p))
               (enumerate 0 (take 10 sample_divs))) =
          [\<lparr>sub_id = ''subtitrari_0_tt0111161'', url = ''https://www.subtitrari.ro/subtitrare/1'',
            lang = ''rum'', title = ''[subtitrari.ro] Film A''\<rparr>,
          \<lparr>sub_id = ''subtitrari_3_tt0111161'', url = ''https://cdn.example.org/c.zip'',
            lang = ''rum'', title = ''[subtitrari.ro] Film C''\<rparr>]"
    by code_simp
  from malformed_entries_dropped[of sample_env subtitrari_ro "''tt0111161''" "''movie''" None None]
  show ?thesis by (simp add: m v r)
qed

text \<open>
  Claim C5 as stated fails on a page with ten containers without an anchor followed by
  a well-formed one: the eleventh match is a valid entry and is not returned.
\<close>

theorem valid_entry_beyond_ten_dropped:
  "length (matches eleven_env subtitrari_ro ''tt0111161'') = 11 \<and>
   valid_entry eleven_env subtitrari_ro (matches eleven_env subtitrari_ro ''tt0111161'' ! 10) \<and>
   fst (scraper_search eleven_env subtitrari_ro ''tt0111161'' ''movie'' None None) = Inr []"
  by code_simp

subsection \<open>The endpoint\<close>

lemma str_split_nonempty: "str_split s c \<noteq> []"
  by (induction s) (auto split: list.splits)

lemma index_parts_0: "index (str_split ident c) 0 = Inr (hd (str_split ident c))"
  using str_split_nonempty[of ident c]
  by (cases "str_split ident c") (simp_all add: index_def)


lemma get_subtitles_unfold:
  "get_subtitles scs ty ident =
     (case component ident 1 of
        Inl x \<Rightarrow> (Inl (Uncaught x), [request_line ty ident])
      | Inr season \<Rightarrow>
          (case component ident 2 of
             Inl x \<Rightarrow> (Inl (Uncaught x), [request_line ty ident])
           | Inr episode \<Rightarrow>
               if \<not> startswith (imdb_of ident) ''tt''
               then (Inl (HTTPException 400 ''Invalid IMDB ID format''), [request_line ty ident])
               else (Inr (fst (run_scrapers scs (imdb_of ident) ty season episode ([], [request_line ty ident]))),
                     snd (run_scrapers scs (imdb_of ident) ty season episode ([], [request_line ty ident]))
                       @ [found_line (length (fst (run_scrapers scs (imdb_of ident) ty season episode
                                                     ([], [request_line ty ident])))) (imdb_of ident)])))"
proof -
  have c: "\<And>k. (if k < length (str_split ident CHR '':'')
           then (case index (str_split ident CHR '':'') k of Inl x \<Rightarrow> Inl x
                 | Inr p \<Rightarrow> map_sum id Some (py_int p))
           else Inr None) = component ident k"
    by (simp add: component_def index_def)
  show ?thesis
    unfolding get_subtitles_def Let_def index_parts_0 c imdb_of_def request_line_def found_line_def
    by simp
qed


lemma run_scrapers_eq:
  "run_scrapers scs imdb_id ty season episode acc =
     (fst acc @ concat (map (contribution imdb_id ty season episode) scs),
      snd acc @ concat (map (invocation imdb_id ty season episode) scs))"
proof (induction scs arbitrary: acc)
  case Nil
  show ?case by simp
next
  case (Cons sc scs)
  obtain r evs where s: "search sc imdb_id ty season episode = (r, evs)"
    by (cases "search sc imdb_id ty season episode")
  show ?case
  proof (cases r)
    case (Inl x)
    with s show ?thesis
      by (simp add: Cons contribution_def invocation_def)
  next
    case (Inr subs)
    with s show ?thesis
      by (simp add: Cons contribution_def invocation_def)
  qed
qed

lemma get_subtitles_valid:
  assumes "component ident 1 = Inr season" "component ident 2 = Inr episode"
    and "startswith (imdb_of ident) ''tt''"
  shows "get_subtitles scs ty ident =
     (Inr (concat (map (contribution (imdb_of ident) ty season episode) scs)),
      request_line ty ident # concat (map (invocation (imdb_of ident) ty season episode) scs)
        @ [found_line (length (concat (map (contribution (imdb_of ident) ty season episode) scs)))
             (imdb_of ident)])"
  using assms by (simp add: get_subtitles_unfold run_scrapers_eq)


lemma get_subtitles_invalid_prefix:
  assumes "component ident 1 = Inr season" "component ident 2 = Inr episode"
    and "\<not> startswith (imdb_of ident) ''tt''"
  shows "get_subtitles scs ty ident =
           (Inl (HTTPException 400 ''Invalid IMDB ID format''), [request_line ty ident])"
  using assms by (simp add: get_subtitles_unfold)










text \<open>
  Claim C3, at the identifier \<open>xx:abc\<close>: the leading component does not start with
  \<open>tt\<close>, and the request ends with the uncaught ValueError of \<open>int('abc')\<close>, a server
  error, where the claim has the 400 of an invalid identifier. No scraper is invoked.
\<close>

theorem non_tt_identifier_not_rejected_with_400:
  "\<not> startswith (imdb_of ''xx:abc'') ''tt'' \<and>
   get_subtitles scs ty ''xx:abc'' =
     (Inl (Uncaught (invalid_literal ''abc'')),
      [request_line ty ''xx:abc'']) \<and>
   http_status (fst (get_subtitles scs ty ''xx:abc'')) = 500"
proof -
  have c: "component ''xx:abc'' 1 = Inl (invalid_literal ''abc'')" by code_simp
  have i: "\<not> startswith (imdb_of ''xx:abc'') ''tt''" by code_simp
  from c i show ?thesis by (simp add: get_subtitles_unfold)
qed

subsection \<open>The records of a response\<close>

lemma digit_val_digit_char:
  assumes "i < 10"
  shows "digit_val (digit_char i) = i"
proof -
  from assms have "i \<in> {0, 1, 2, 3, 4, 5, 6, 7, 8, 9}" by auto
  then show ?thesis by (auto simp: digit_char_def digit_val_def)
qed

lemma str_nat_digit: "n < 10 \<Longrightarrow> str_nat n = [digit_char n]"
  by (simp add: str_nat.simps)

lemma make_id_inj:
  assumes "i < 10" "j < 10" "make_id st imdb_id i = make_id st imdb_id j"
  shows "i = j"
proof -
  from assms have "digit_char i = digit_char j"
    by (simp add: make_id_def str_nat_digit)
  then have "digit_val (digit_char i) = digit_val (digit_char j)" by simp
  with assms(1,2) show ?thesis by (simp add: digit_val_digit_char)
qed

lemma make_id_sites_differ:
  "make_id subtitrari_ro a i \<noteq> make_id subs_ro b j"
  "make_id subtitrari_ro a i \<noteq> make_id titrari_ro b j"
  "make_id subs_ro a i \<noteq> make_id titrari_ro b j"
  by (simp_all add: make_id_def subtitrari_ro_def subs_ro_def titrari_ro_def)

lemma enumerate_take_fst:
  assumes "p \<in> set (enumerate 0 (take 10 ms))"
  shows "fst p < 10"
  using assms by (auto simp: in_set_enumerate_eq)

lemma site_record_shape:
  assumes "s \<in> set (map (record_of e st imdb_id)
                      (filter (\<lambda>p. valid_entry e st (snd p)) (enumerate 0 (take 10 ms))))"
  shows "lang s = ''rum'' \<and> startswith (title s) (''['' @ site_name st @ ''] '') \<and>
         (\<exists>idx<10. sub_id s = make_id st imdb_id idx)"
proof -
  from assms obtain p where p: "p \<in> set (enumerate 0 (take 10 ms))" and s: "s = record_of e st imdb_id p"
    by auto
  from enumerate_take_fst[OF p] s show ?thesis
    by (auto simp: record_of_def Let_def startswith_simps)
qed

lemma site_ids:
  "map sub_id (map (record_of e st imdb_id) ps) = map (make_id st imdb_id) (map fst ps)"
  by (simp add: record_of_def Let_def comp_def)

lemma site_ids_distinct:
  "distinct (map sub_id (map (record_of e st imdb_id)
      (filter (\<lambda>p. valid_entry e st (snd p)) (enumerate 0 (take 10 ms)))))"
proof -
  let ?ps = "filter (\<lambda>p. valid_entry e st (snd p)) (enumerate 0 (take 10 ms))"
  have d: "distinct (map fst ?ps)"
    by (rule distinct_map_filter) simp
  have "set (map fst ?ps) \<subseteq> {..<10}"
    using enumerate_take_fst by auto
  then have inj: "inj_on (make_id st imdb_id) (set (map fst ?ps))"
    by (auto intro!: inj_onI dest: make_id_inj[of _ _ st imdb_id] simp del: set_map)
  have "distinct (map (make_id st imdb_id) (map fst ?ps))"
    by (rule iffD2[OF distinct_map]) (rule conjI[OF d inj])
  then show ?thesis by (simp only: site_ids)
qed

lemma contribution_scraper:
  assumes "search sc = scraper_search e st"
  shows "contribution imdb_id ty season episode sc = site_output e st imdb_id"
  by (simp add: contribution_def assms search_result site_output_def)

lemma site_output_ids:
  "s \<in> set (site_output e st imdb_id) \<Longrightarrow> \<exists>idx<10. sub_id s = make_id st imdb_id idx"
  unfolding site_output_def using site_record_shape by blast

lemma site_output_well_formed:
  assumes "st \<in> set source_sites" "s \<in> set (site_output e st imdb_id)"
  shows "well_formed_record imdb_id s"
proof -
  from assms(2) have shape: "lang s = ''rum'' \<and> startswith (title s) (''['' @ site_name st @ ''] '') \<and>
         (\<exists>idx<10. sub_id s = make_id st imdb_id idx)"
    unfolding site_output_def by (rule site_record_shape)
  then obtain idx where "idx < 10" "sub_id s = make_id st imdb_id idx" by blast
  then have "\<exists>idx\<in>set [0..<10]. sub_id s = make_id st imdb_id idx" by auto
  with shape assms(1)
  have "\<exists>st\<in>set source_sites. startswith (title s) (''['' @ site_name st @ ''] '') \<and>
          (\<exists>idx\<in>set [0..<10]. sub_id s = make_id st imdb_id idx)"
    by blast
  with shape show ?thesis
    unfolding well_formed_record_def list_ex_iff by blast
qed

lemma site_outputs_disjoint:
  assumes "s \<in> set (site_output e st i)" "s' \<in> set (site_output e st' i)"
    and "\<And>a b. make_id st i a \<noteq> make_id st' i b"
  shows "sub_id s \<noteq> sub_id s'"
proof -
  from site_output_ids[OF assms(1)] obtain a where "sub_id s = make_id st i a" by blast
  moreover from site_output_ids[OF assms(2)] obtain b where "sub_id s' = make_id st' i b" by blast
  ultimately show ?thesis using assms(3)[of a b] by simp
qed

lemma response_ids_distinct:
  "distinct (map sub_id (site_output e subtitrari_ro i @ site_output e subs_ro i @ site_output e titrari_ro i))"
proof -
  have d: "distinct (map sub_id (site_output e st i))" for st
    unfolding site_output_def by (rule site_ids_distinct)
  have "sub_id s \<noteq> sub_id s'"
    if "s \<in> set (site_output e subtitrari_ro i)" "s' \<in> set (site_output e subs_ro i)" for s s'
    using that by (rule site_outputs_disjoint) (rule make_id_sites_differ(1))
  moreover have "sub_id s \<noteq> sub_id s'"
    if "s \<in> set (site_output e subtitrari_ro i)" "s' \<in> set (site_output e titrari_ro i)" for s s'
    using that by (rule site_outputs_disjoint) (rule make_id_sites_differ(2))
  moreover have "sub_id s \<noteq> sub_id s'"
    if "s \<in> set (site_output e subs_ro i)" "s' \<in> set (site_output e titrari_ro i)" for s s'
    using that by (rule site_outputs_disjoint) (rule make_id_sites_differ(3))
  ultimately show ?thesis
    using d[of subtitrari_ro] d[of subs_ro] d[of titrari_ro]
    by (auto simp: distinct_append)
qed

lemma response_of_configured:
  assumes "fst (get_subtitles (scrapers e) ty ident) = Inr subs"
  shows "subs = site_output e subtitrari_ro (imdb_of ident) @ site_output e subs_ro (imdb_of ident)
                  @ site_output e titrari_ro (imdb_of ident)"
proof -
  from assms obtain season episode where
    v: "component ident 1 = Inr season" "component ident 2 = Inr episode" "startswith (imdb_of ident) ''tt''"
    by (auto simp: get_subtitles_unfold split: sum.splits if_splits)
  from assms show ?thesis
    unfolding get_subtitles_valid[OF v]
    by (simp add: scrapers_def
          contribution_scraper[of _ e subtitrari_ro] contribution_scraper[of _ e subs_ro]
          contribution_scraper[of _ e titrari_ro]
          SubtitrariRoScraper_def SubsRoScraper_def TitrariRoScraper_def)
qed

text \<open>
  Claim C6: in every response of the endpoint over the three configured scrapers, each
  record has the language code \<open>rum\<close>, a title that starts with the bracketed name of
  its site, and an id made of the tag of the site, an ordinal and the IMDB id of the
  request; no two records of the response have the same id.
\<close>

theorem record_invariants:
  assumes "fst (get_subtitles (scrapers e) ty ident) = Inr subs"
  shows "list_all (well_formed_record (imdb_of ident)) subs \<and> distinct (map sub_id subs)"
proof -
  note r = response_of_configured[OF assms]
  have "well_formed_record (imdb_of ident) s" if "s \<in> set subs" for s
    using that unfolding r
    by (auto simp: source_sites_def intro: site_output_well_formed)
  moreover have "distinct (map sub_id subs)"
    unfolding r by (rule response_ids_distinct)
  ultimately show ?thesis by (simp add: list_all_iff)
qed

theorem record_invariants_witness:
  "fst (get_subtitles (scrapers sample_env) ''movie'' ''tt0111161'') =
     Inr [\<lparr>sub_id = ''subtitrari_0_tt0111161'', url = ''https://www.subtitrari.ro/subtitrare/1'',
            lang = ''rum'', title = ''[subtitrari.ro] Film A''\<rparr>,
          \<lparr>sub_id = ''subtitrari_3_tt0111161'', url = ''https://cdn.example.org/c.zip'',
            lang = ''rum'', title = ''[subtitrari.ro] Film C''\<rparr>,
          \<lparr>sub_id = ''subsro_0_tt0111161'', url = ''https://www.subs.ro/subtitrare-2.html'',
            lang = ''rum'', title = ''[subs.ro] Film D''\<rparr>,
          \<lparr>sub_id = ''subsro_3_tt0111161'', url = ''https://www.subs.ro/subtitrare?id=4'',
            lang = ''rum'', title = ''[subs.ro] Film F''\<rparr>,
          \<lparr>sub_id = ''titrari_0_tt0111161'', url = ''https://www.titrari.ro/subtitrare-2.html'',
            lang = ''rum'', title = ''[titrari.ro] Film D''\<rparr>,
          \<lparr>sub_id = ''titrari_3_tt0111161'', url = ''https://www.titrari.ro/subtitrare?id=4'',
            lang = ''rum'', title = ''[titrari.ro] Film F''\<rparr>] \<and>
   list_all (well_formed_record ''tt0111161'')
     (case fst (get_subtitles (scrapers sample_env) ''movie'' ''tt0111161'') of Inr subs \<Rightarrow> subs | Inl f \<Rightarrow> []) \<and>
   distinct (map sub_id
     (case fst (get_subtitles (scrapers sample_env) ''movie'' ''tt0111161'') of Inr subs \<Rightarrow> subs | Inl f \<Rightarrow> []))"
proof -
  have h: "fst (get_subtitles (scrapers sample_env) ''movie'' ''tt0111161'') =
     Inr [\<lparr>sub_id = ''subtitrari_0_tt0111161'', url = ''https://www.subtitrari.ro/subtitrare/1'',
            lang = ''rum'', title = ''[subtitrari.ro] Film A''\<rparr>,
          \<lparr>sub_id = ''subtitrari_3_tt0111161'', url = ''https://cdn.example.org/c.zip'',
            lang = ''rum'', title = ''[subtitrari.ro] Film C''\<rparr>,
          \<lparr>sub_id = ''subsro_0_tt0111161'', url = ''https://www.subs.ro/subtitrare-2.html'',
            lang = ''rum'', title = ''[subs.ro] Film D''\<rparr>,
          \<lparr>sub_id = ''subsro_3_tt0111161'', url = ''https://www.subs.ro/subtitrare?id=4'',
            lang = ''rum'', title = ''[subs.ro] Film F''\<rparr>,
          \<lparr>sub_id = ''titrari_0_tt0111161'', url = ''https://www.titrari.ro/subtitrare-2.html'',
            lang = ''rum'', title = ''[titrari.ro] Film D''\<rparr>,
          \<lparr>sub_id = ''titrari_3_tt0111161'', url = ''https://www.titrari.ro/subtitrare?id=4'',
            lang = ''rum'', title = ''[titrari.ro] Film F''\<rparr>]"
    by code_simp
  have i: "imdb_of ''tt0111161'' = ''tt0111161''" by code_simp
  from record_invariants[OF h] show ?thesis
    unfolding i h by simp
qed

subsection \<open>Links\<close>

text \<open>
  Claim C7, at the link \<open>httpx/sub.zip\<close>: the link is a relative path that starts with
  \<open>http\<close>, the scraper takes it for an absolute one and keeps it, and the record has a
  URL that is not absolute.
\<close>

theorem http_prefixed_relative_link_kept:
  "fst (scraper_search httpx_env subtitrari_ro ''tt0111161'' ''movie'' None None) =
     Inr [\<lparr>sub_id = ''subtitrari_0_tt0111161'', url = ''httpx/sub.zip'',
            lang = ''rum'', title = ''[subtitrari.ro] Film H''\<rparr>] \<and>
   \<not> is_absolute_url ''httpx/sub.zip''"
  by code_simp

end
